theory Spec2Isabelle
  imports Main "HOL-Library.Word"
begin

section \<open>JavaScript values and built-ins that server.ts relies on\<close>

text \<open>
  JSON values, as \<open>JSON.parse\<close> produces them and \<open>JSON.stringify\<close> consumes them.
  Numbers are integers here (the only number server.ts writes is \<open>ttlInSecs: 1200\<close>);
  an object is the list of its own properties, in insertion order, with distinct keys.
\<close>

datatype json =
    JNull
  | JBool bool
  | JNum int
  | JStr string
  | JArr "json list"
  | JObj "(string \<times> json) list"

text \<open>
  A thrown value: an \<open>Error\<close> with its message, or something that is not an
  \<open>Error\<close> (the handlers test \<open>error instanceof Error\<close>).
\<close>

datatype js_exn = JsError string | NonError

text \<open>
  Truthiness of a JSON value (\<open>body ? ... : ...\<close>). A string that may be undefined
  (\<open>string option\<close>) is falsy when it is undefined or empty; the tests \<open>!SECRET_KEY\<close>,
  \<open>!APP_TOKEN\<close> and \<open>!userId\<close> are written out as these two cases.
\<close>

fun truthy :: "json \<Rightarrow> bool" where
  "truthy JNull = False"
| "truthy (JBool b) = b"
| "truthy (JNum n) = (n \<noteq> 0)"
| "truthy (JStr s) = (s \<noteq> [])"
| "truthy (JArr xs) = True"
| "truthy (JObj kvs) = True"

text \<open>\<open>a || b\<close> for a string \<open>a\<close> that may be undefined and a string \<open>b\<close>.\<close>

fun or_else :: "string option \<Rightarrow> string \<Rightarrow> string" where
  "or_else None d = d"
| "or_else (Some s) d = (if s \<noteq> [] then s else d)"

text \<open>
  \<open>String.prototype.toUpperCase\<close> on ASCII text: the letters a to z move to A to Z,
  every other character stays. (HTTP methods are ASCII; the Unicode special cases of
  JavaScript are outside this model.)
\<close>

definition upper_char :: "char \<Rightarrow> char" where
  "upper_char c =
     (if (97::nat) \<le> of_char c \<and> of_char c \<le> (122::nat)
      then char_of (of_char c - (32::nat)) else c)"

definition toUpperCase :: "string \<Rightarrow> string" where
  "toUpperCase s = map upper_char s"

text \<open>\<open>s.substring(i, j)\<close> for \<open>i \<le> j\<close>.\<close>

definition substring :: "nat \<Rightarrow> nat \<Rightarrow> string \<Rightarrow> string" where
  "substring i j s = take (j - i) (drop i s)"

text \<open>
  \<open>Number.prototype.toString()\<close> and template interpolation of a non-negative
  integer: its decimal digits, most significant first.
\<close>

definition digit :: "nat \<Rightarrow> char" where
  "digit n = char_of (48 + n)"

function dec :: "nat \<Rightarrow> string" where
  "dec n = (if n < 10 then [digit n] else dec (n div 10) @ [digit (n mod 10)])"
  by pat_completeness auto
termination
  by (relation "measure id") auto

declare dec.simps [simp del]

text \<open>
  \<open>digest('hex')\<close> of Node's crypto module: two lowercase hexadecimal digits for each
  byte of the digest, high nibble first.
\<close>

definition hex_digit :: "nat \<Rightarrow> char" where
  "hex_digit n = (if n < 10 then char_of (48 + n) else char_of (87 + n))"

definition hex_byte :: "8 word \<Rightarrow> string" where
  "hex_byte b = [hex_digit (unat b div 16), hex_digit (unat b mod 16)]"

definition hex :: "8 word list \<Rightarrow> string" where
  "hex bs = concat (map hex_byte bs)"

definition is_lower_hex :: "string \<Rightarrow> bool" where
  "is_lower_hex s = list_all (\<lambda>c. c \<in> set ''0123456789abcdef'') s"

text \<open>
  The library functions server.ts calls and this repository does not define:
  \<open>crypto.createHmac('sha256', key).update(message).digest()\<close> as a function from key
  and message to the digest bytes, and \<open>JSON.stringify\<close>. They are parameters of the
  model: every theorem holds for each choice of them.
\<close>

record platform =
  hmac_sha256 :: "string \<Rightarrow> string \<Rightarrow> 8 word list"
  JSON_stringify :: "json \<Rightarrow> string"

section \<open>Configuration (server.ts, lines 16 to 20)\<close>

text \<open>\<open>process.env\<close> after \<open>dotenv.config\<close>: a variable is a string or undefined.\<close>

type_synonym env = "string \<Rightarrow> string option"

definition SUMSUB_API_URL :: string where
  "SUMSUB_API_URL = ''https://api.sumsub.com''"

definition APP_TOKEN :: "env \<Rightarrow> string option" where
  "APP_TOKEN e = e ''SUMSUB_APP_TOKEN''"

definition SECRET_KEY :: "env \<Rightarrow> string option" where
  "SECRET_KEY e = e ''SUMSUB_SECRET_KEY''"

definition LEVEL_NAME :: "env \<Rightarrow> string" where
  "LEVEL_NAME e = or_else (e ''SUMSUB_LEVEL_NAME'') ''basic-kyc-level''"

section \<open>The signer (server.ts, lines 62 to 68)\<close>

text \<open>
  \<open>createSignature(timestamp, method, path, body = '')\<close>. It throws when the secret is
  undefined or the empty string (\<open>!SECRET_KEY\<close>). Its only caller passes all four
  arguments, so the default of \<open>body\<close> is not a separate case here.
\<close>

definition signing_message :: "string \<Rightarrow> string \<Rightarrow> string \<Rightarrow> string \<Rightarrow> string" where
  "signing_message timestamp method path body = timestamp @ toUpperCase method @ path @ body"

definition createSignature ::
  "platform \<Rightarrow> env \<Rightarrow> string \<Rightarrow> string \<Rightarrow> string \<Rightarrow> string \<Rightarrow> js_exn + string" where
  "createSignature P e timestamp method path body =
     (case SECRET_KEY e of
        None \<Rightarrow> Inl (JsError ''SUMSUB_SECRET_KEY is not configured'')
      | Some key \<Rightarrow>
          if key = [] then Inl (JsError ''SUMSUB_SECRET_KEY is not configured'')
          else
            let message = signing_message timestamp method path body
            in Inr (hex (hmac_sha256 P key message)))"

section \<open>The outside world of one request\<close>

text \<open>
  One outbound HTTP request, as \<open>makeAuthenticatedRequest\<close> hands it to \<open>fetch\<close>: the
  URL, the method, the four headers and the body (\<open>None\<close> where the code passes
  \<open>undefined\<close>, that is, no body is transmitted).
\<close>

record outbound =
  url :: string
  http_method :: string
  x_app_token :: string
  x_app_access_ts :: string
  x_app_access_sig :: string
  content_type :: string
  sent_body :: "string option"

text \<open>
  What \<open>fetch\<close> yields: it rejects, or it resolves to a response with a status, a
  text (\<open>response.text()\<close>) and a parsed body (\<open>response.json()\<close>), each of which may
  reject in turn.
\<close>

record response =
  status :: nat
  text_body :: "js_exn + string"
  json_body :: "js_exn + json"

datatype fetch_result = Rejects js_exn | Resolves response

definition ok :: "response \<Rightarrow> bool" where
  "ok r = (200 \<le> status r \<and> status r \<le> 299)"

text \<open>
  The world a handler runs in. \<open>Date.now()\<close> and \<open>Math.random().toString(36)\<close> are
  read from two sequences of readings (the \<open>n\<close>-th call gets the \<open>n\<close>-th reading; floating
  point is not modelled, the random draw is taken already rendered in base 36). The remote
  API answers a request as a function of the requests it has received before and of the
  request itself. \<open>sent\<close> is the log of the outbound calls issued so far, oldest first.
  The dynamic import of node-fetch is taken to resolve; logging is not modelled.
\<close>

record world =
  dates :: "nat \<Rightarrow> nat"
  date_reads :: nat
  randoms :: "nat \<Rightarrow> string"
  random_reads :: nat
  upstream :: "outbound list \<Rightarrow> outbound \<Rightarrow> fetch_result"
  sent :: "outbound list"

definition Date_now :: "world \<Rightarrow> nat \<times> world" where
  "Date_now w = (dates w (date_reads w), w\<lparr>date_reads := Suc (date_reads w)\<rparr>)"

definition Math_random_toString36 :: "world \<Rightarrow> string \<times> world" where
  "Math_random_toString36 w =
     (randoms w (random_reads w), w\<lparr>random_reads := Suc (random_reads w)\<rparr>)"

definition fetch :: "outbound \<Rightarrow> world \<Rightarrow> fetch_result \<times> world" where
  "fetch req w = (upstream w (sent w) req, w\<lparr>sent := sent w @ [req]\<rparr>)"

section \<open>Authenticated requests (server.ts, lines 71 to 111)\<close>

text \<open>Lines 100 to 106: a response that is not ok is thrown with its status and text.\<close>

definition read_response :: "fetch_result \<Rightarrow> js_exn + json" where
  "read_response fr =
     (case fr of
        Rejects x \<Rightarrow> Inl x
      | Resolves r \<Rightarrow>
          if \<not> ok r then
            (case text_body r of
               Inl x \<Rightarrow> Inl x
             | Inr errorText \<Rightarrow>
                 Inl (JsError (''Sumsub API error: '' @ dec (status r) @ '' '' @ errorText)))
          else json_body r)"

text \<open>
  \<open>makeAuthenticatedRequest(method, path, body = null)\<close>. The body string that is signed
  (line 81) and the body that is handed to \<open>fetch\<close> (line 97) are two separate
  expressions of the source, and are kept apart here.
\<close>

definition makeAuthenticatedRequest ::
  "platform \<Rightarrow> env \<Rightarrow> string \<Rightarrow> string \<Rightarrow> json \<Rightarrow> world \<Rightarrow> (js_exn + json) \<times> world" where
  "makeAuthenticatedRequest P e method path body w =
     (case APP_TOKEN e of
        None \<Rightarrow> (Inl (JsError ''SUMSUB_APP_TOKEN is not configured''), w)
      | Some app_token \<Rightarrow>
          if app_token = [] then (Inl (JsError ''SUMSUB_APP_TOKEN is not configured''), w)
          else
            (case Date_now w of (now, w1) \<Rightarrow>
               let timestamp = dec (now div 1000);
                   bodyString = (if truthy body then JSON_stringify P body else [])
               in
                 (case createSignature P e timestamp method path bodyString of
                    Inl x \<Rightarrow> (Inl x, w1)
                  | Inr signature \<Rightarrow>
                      (case fetch
                         \<lparr>url = SUMSUB_API_URL @ path,
                          http_method = method,
                          x_app_token = app_token,
                          x_app_access_ts = timestamp,
                          x_app_access_sig = signature,
                          content_type = ''application/json'',
                          sent_body = (if truthy body then Some (JSON_stringify P body) else None)\<rparr>
                         w1 of
                         (fr, w2) \<Rightarrow> (read_response fr, w2)))))"

section \<open>The three handlers (server.ts, lines 114 to 222)\<close>

text \<open>
  \<open>req.body\<close> of the two POST routes, after \<open>express.json()\<close>, at the type the source
  declares (\<open>AccessTokenRequestBody\<close>): each field is a string or absent.
\<close>

record token_request =
  userId :: "string option"
  levelName :: "string option"

text \<open>A local response: the status code and the value given to \<open>res.json\<close>.\<close>

type_synonym http_response = "nat \<times> json"

text \<open>
  An object literal whose property values may be undefined. \<open>res.json\<close> serialises with
  \<open>JSON.stringify\<close>, which leaves such properties out.
\<close>

definition object :: "(string \<times> json option) list \<Rightarrow> json" where
  "object kvs = JObj (List.map_filter (\<lambda>(k, v). map_option (Pair k) v) kvs)"

text \<open>
  Reading a property of a parsed response (\<open>applicantResponse.id\<close>,
  \<open>tokenResponse.token\<close>): a TypeError on null, the property or undefined on an object,
  undefined on every other value.
\<close>

fun get_prop :: "json \<Rightarrow> string \<Rightarrow> js_exn + json option" where
  "get_prop JNull k =
     Inl (JsError (''Cannot read properties of null (reading '' @ [CHR 0x27] @ k @ [CHR 0x27] @ '')''))"
| "get_prop (JObj kvs) k = Inr (map_of kvs k)"
| "get_prop v k = Inr None"

text \<open>The body of every catch block: status 500, a fixed message and the error's text.\<close>

definition failure :: "string \<Rightarrow> js_exn \<Rightarrow> http_response" where
  "failure msg x =
     (500, JObj [(''error'', JStr msg),
                 (''details'', JStr (case x of JsError m \<Rightarrow> m | NonError \<Rightarrow> ''Unknown error''))])"

definition userId_required :: http_response where
  "userId_required = (400, JObj [(''error'', JStr ''userId is required'')])"

text \<open>Line 124 and line 127.\<close>

definition selectedLevel :: "env \<Rightarrow> string option \<Rightarrow> string" where
  "selectedLevel e level = or_else level (LEVEL_NAME e)"

definition uniqueUserId :: "string \<Rightarrow> nat \<Rightarrow> string \<Rightarrow> string" where
  "uniqueUserId user now rnd = user @ ''_'' @ dec now @ ''_'' @ substring 2 8 rnd"

text \<open>\<open>POST /api/access-token\<close>.\<close>

definition access_token ::
  "platform \<Rightarrow> env \<Rightarrow> token_request \<Rightarrow> world \<Rightarrow> http_response \<times> world" where
  "access_token P e req w =
     (case userId req of
        None \<Rightarrow> (userId_required, w)
      | Some user \<Rightarrow>
        if user = [] then (userId_required, w)
        else
        let level = selectedLevel e (levelName req) in
          (case Date_now w of (now, w1) \<Rightarrow>
          (case Math_random_toString36 w1 of (rnd, w2) \<Rightarrow>
             let uid = uniqueUserId user now rnd in
               (case makeAuthenticatedRequest P e ''POST''
                       (''/resources/applicants?levelName='' @ level)
                       (JObj [(''externalUserId'', JStr uid)]) w2 of
                  (Inl x, w3) \<Rightarrow> (failure ''Failed to generate access token'' x, w3)
                | (Inr applicantResponse, w3) \<Rightarrow>
                    (case get_prop applicantResponse ''id'' of
                       Inl x \<Rightarrow> (failure ''Failed to generate access token'' x, w3)
                     | Inr applicantId \<Rightarrow>
                         (case makeAuthenticatedRequest P e ''POST''
                                 ''/resources/accessTokens/sdk''
                                 (JObj [(''userId'', JStr uid),
                                        (''levelName'', JStr level),
                                        (''ttlInSecs'', JNum 1200)]) w3 of
                            (Inl x, w4) \<Rightarrow> (failure ''Failed to generate access token'' x, w4)
                          | (Inr tokenResponse, w4) \<Rightarrow>
                              (case get_prop tokenResponse ''token'' of
                                 Inl x \<Rightarrow> (failure ''Failed to generate access token'' x, w4)
                               | Inr token \<Rightarrow>
                                   ((200, object [(''token'', token),
                                                  (''applicantId'', applicantId),
                                                  (''userId'', Some (JStr uid))]), w4))))))))"

text \<open>\<open>POST /api/refresh-token\<close>. Only \<open>userId\<close> is read from the body.\<close>

definition refresh_token ::
  "platform \<Rightarrow> env \<Rightarrow> token_request \<Rightarrow> world \<Rightarrow> http_response \<times> world" where
  "refresh_token P e req w =
     (case userId req of
        None \<Rightarrow> (userId_required, w)
      | Some user \<Rightarrow>
        if user = [] then (userId_required, w)
        else
          (case makeAuthenticatedRequest P e ''POST''
                  ''/resources/accessTokens/sdk''
                  (JObj [(''userId'', JStr user),
                         (''levelName'', JStr (LEVEL_NAME e)),
                         (''ttlInSecs'', JNum 1200),
                         (''applicantIdentifiers'', JObj [])]) w of
             (Inl x, w1) \<Rightarrow> (failure ''Failed to refresh access token'' x, w1)
           | (Inr tokenResponse, w1) \<Rightarrow>
               (case get_prop tokenResponse ''token'' of
                  Inl x \<Rightarrow> (failure ''Failed to refresh access token'' x, w1)
                | Inr token \<Rightarrow>
                    ((200, object [(''token'', token), (''userId'', Some (JStr user))]), w1))))"


section \<open>The remote contract, in the words of the specification\<close>

text \<open>
  The request the remote API expects (specification, sections 4.1 and 6): the fixed base
  URL followed by the path, the application token, the time in whole seconds since the
  epoch, and the lowercase hexadecimal HMAC-SHA256, under the secret, of timestamp,
  upper-case method, path and body; \<open>body\<close> is the string transmitted, if any. This
  definition is written from the specification; the theorems compare the requests that
  the code issues with it.
\<close>

definition signed_request ::
  "platform \<Rightarrow> string \<Rightarrow> string \<Rightarrow> string \<Rightarrow> string \<Rightarrow> string option \<Rightarrow> nat \<Rightarrow> outbound" where
  "signed_request P secret app_token method path body now_ms =
     \<lparr>url = ''https://api.sumsub.com'' @ path,
      http_method = method,
      x_app_token = app_token,
      x_app_access_ts = dec (now_ms div 1000),
      x_app_access_sig =
        hex (hmac_sha256 P secret
          (dec (now_ms div 1000) @ toUpperCase method @ path @ (case body of None \<Rightarrow> [] | Some b \<Rightarrow> b))),
      content_type = ''application/json'',
      sent_body = body\<rparr>"

text \<open>The three calls of section 6, for a platform, secret, token and clock reading.\<close>

definition create_subject_request ::
  "platform \<Rightarrow> string \<Rightarrow> string \<Rightarrow> string \<Rightarrow> string \<Rightarrow> nat \<Rightarrow> outbound" where
  "create_subject_request P secret app_token level uid now_ms =
     signed_request P secret app_token ''POST'' (''/resources/applicants?levelName='' @ level)
       (Some (JSON_stringify P (JObj [(''externalUserId'', JStr uid)]))) now_ms"

definition mint_token_request ::
  "platform \<Rightarrow> string \<Rightarrow> string \<Rightarrow> json \<Rightarrow> nat \<Rightarrow> outbound" where
  "mint_token_request P secret app_token payload now_ms =
     signed_request P secret app_token ''POST'' ''/resources/accessTokens/sdk''
       (Some (JSON_stringify P payload)) now_ms"


text \<open>Both credentials are present and not empty.\<close>

definition configured :: "env \<Rightarrow> string \<Rightarrow> string \<Rightarrow> bool" where
  "configured e secret app_token =
     (SECRET_KEY e = Some secret \<and> secret \<noteq> [] \<and> APP_TOKEN e = Some app_token \<and> app_token \<noteq> [])"

text \<open>The characters of a base 36 rendering: digits and lowercase letters.\<close>

definition is_base36 :: "char \<Rightarrow> bool" where
  "is_base36 c = (c \<in> set ''0123456789abcdefghijklmnopqrstuvwxyz'')"

text \<open>Two different messages with the same digest under a key.\<close>

definition collision :: "platform \<Rightarrow> string \<Rightarrow> string \<Rightarrow> string \<Rightarrow> bool" where
  "collision P secret x y = (x \<noteq> y \<and> hmac_sha256 P secret x = hmac_sha256 P secret y)"

section \<open>A stub platform and a stub remote API for concrete runs\<close>

text \<open>
  Test doubles, used only to run the handlers on concrete inputs. The stub digest is the
  bytes of key and message; the stub serialiser writes JSON without escaping. The stub
  remote API answers a token request with a token \<open>tok_xyz\<close> and every other request
  with a subject \<open>sub_1\<close> (the end-to-end scenario of the specification, section 8); the
  failing one answers every request with status 503.
\<close>

definition stub_hmac :: "string \<Rightarrow> string \<Rightarrow> 8 word list" where
  "stub_hmac key message = map of_char (key @ message)"

fun join :: "string list \<Rightarrow> string" where
  "join [] = []"
| "join [x] = x"
| "join (x # y # ys) = x @ '','' @ join (y # ys)"

fun stub_stringify :: "json \<Rightarrow> string" where
  "stub_stringify JNull = ''null''"
| "stub_stringify (JBool b) = (if b then ''true'' else ''false'')"
| "stub_stringify (JNum n) = (if n < 0 then ''-'' @ dec (nat (- n)) else dec (nat n))"
| "stub_stringify (JStr s) = [CHR 0x22] @ s @ [CHR 0x22]"
| "stub_stringify (JArr xs) = ''['' @ join (map stub_stringify xs) @ '']''"
| "stub_stringify (JObj kvs) =
     ''{'' @ join (map (\<lambda>kv. [CHR 0x22] @ fst kv @ [CHR 0x22] @ '':'' @ stub_stringify (snd kv)) kvs) @ ''}''"

definition stub_platform :: platform where
  "stub_platform = \<lparr>hmac_sha256 = stub_hmac, JSON_stringify = stub_stringify\<rparr>"

definition stub_env :: env where
  "stub_env = map_of [(''SUMSUB_APP_TOKEN'', ''app''), (''SUMSUB_SECRET_KEY'', ''key'')]"

definition reply :: "nat \<Rightarrow> json \<Rightarrow> fetch_result" where
  "reply st j = Resolves \<lparr>status = st, text_body = Inr (stub_stringify j), json_body = Inr j\<rparr>"

definition stub_upstream :: "outbound list \<Rightarrow> outbound \<Rightarrow> fetch_result" where
  "stub_upstream history req =
     (if url req = ''https://api.sumsub.com/resources/accessTokens/sdk''
      then reply 200 (JObj [(''token'', JStr ''tok_xyz'')])
      else reply 200 (JObj [(''id'', JStr ''sub_1'')]))"

definition failing_upstream :: "outbound list \<Rightarrow> outbound \<Rightarrow> fetch_result" where
  "failing_upstream history req = reply 503 (JStr ''down'')"

text \<open>A world whose clock and random source give the same reading at every call.\<close>

definition stub_world :: "(outbound list \<Rightarrow> outbound \<Rightarrow> fetch_result) \<Rightarrow> world" where
  "stub_world up =
     \<lparr>dates = (\<lambda>n. 1700000000123), date_reads = 0,
      randoms = (\<lambda>n. ''0.4fzyo82mvyr''), random_reads = 0,
      upstream = up, sent = []\<rparr>"

section \<open>Decimal and hexadecimal renderings\<close>

text \<open>
  Facts about the renderings the handlers and the signer build their strings from:
  a decimal rendering consists of digits and determines its number; a hexadecimal
  rendering consists of lowercase hexadecimal digits, two for each byte, and determines
  its bytes.
\<close>

lemma of_char_digit: "n < 10 \<Longrightarrow> of_char (digit n) = (48 + n :: nat)"
  by (simp add: digit_def)

lemma digit_inj: "a < 10 \<Longrightarrow> b < 10 \<Longrightarrow> digit a = digit b \<Longrightarrow> a = b"
proof -
  assume a: "a < 10" and b: "b < 10" and e: "digit a = digit b"
  from e have "(of_char (digit a) :: nat) = of_char (digit b)" by (rule arg_cong)
  then have "48 + a = 48 + b" by (simp only: of_char_digit [OF a] of_char_digit [OF b])
  then show "a = b" by (simp only: add_left_cancel)
qed

lemma dec_not_Nil: "dec n \<noteq> []"
  by (subst dec.simps) simp

lemma dec_inj: "dec n = dec m \<Longrightarrow> n = m"
proof (induction n arbitrary: m rule: dec.induct)
  case (1 n)
  show ?case
  proof (cases "n < 10")
    case True
    then have n: "dec n = [digit n]" by (subst dec.simps) simp
    show ?thesis
    proof (cases "m < 10")
      case mt: True
      then have "dec m = [digit m]" by (subst dec.simps) simp
      with n "1.prems" True mt show ?thesis by (simp add: digit_inj)
    next
      case False
      then have "dec m = dec (m div 10) @ [digit (m mod 10)]" by (subst dec.simps) simp
      with n "1.prems" show ?thesis by (simp add: dec_not_Nil)
    qed
  next
    case False
    then have n: "dec n = dec (n div 10) @ [digit (n mod 10)]" by (subst dec.simps) simp
    show ?thesis
    proof (cases "m < 10")
      case True
      then have "dec m = [digit m]" by (subst dec.simps) simp
      with n "1.prems" dec_not_Nil [of "n div 10"] show ?thesis by auto
    next
      case mf: False
      then have m: "dec m = dec (m div 10) @ [digit (m mod 10)]" by (subst dec.simps) simp
      from n m "1.prems" have e: "dec (n div 10) = dec (m div 10)" "digit (n mod 10) = digit (m mod 10)"
        by simp_all
      from "1.IH" [OF False e(1)] have d: "n div 10 = m div 10" .
      from e(2) have r: "n mod 10 = m mod 10" by (simp add: digit_inj)
      from d r show ?thesis by (metis div_mult_mod_eq)
    qed
  qed
qed

lemma dec_digits: "c \<in> set (dec n) \<Longrightarrow> 48 \<le> (of_char c :: nat) \<and> (of_char c :: nat) \<le> 57"
proof (induction n rule: dec.induct)
  case (1 n)
  show ?case
  proof (cases "n < 10")
    case True
    then have "dec n = [digit n]" by (subst dec.simps) simp
    with "1.prems" True show ?thesis by (simp add: of_char_digit)
  next
    case False
    then have "dec n = dec (n div 10) @ [digit (n mod 10)]" by (subst dec.simps) simp
    with "1.prems" "1.IH" [OF False] show ?thesis by (auto simp: of_char_digit)
  qed
qed

lemma underscore_notin_dec: "CHR ''_'' \<notin> set (dec n)"
  using dec_digits [of "CHR ''_''" n] by auto

lemma split_at_fresh:
  "c \<notin> set xs \<Longrightarrow> c \<notin> set xs' \<Longrightarrow> xs @ c # ys = xs' @ c # ys' \<Longrightarrow> xs = xs' \<and> ys = ys'"
proof (induction xs arbitrary: xs')
  case Nil
  then show ?case by (cases xs') auto
next
  case (Cons a xs)
  then show ?case by (cases xs') auto
qed

lemma uniqueUserId_eq_iff:
  "uniqueUserId u t r = uniqueUserId u t' r' \<longleftrightarrow> t = t' \<and> substring 2 8 r = substring 2 8 r'"
  using split_at_fresh [OF underscore_notin_dec underscore_notin_dec, of t "substring 2 8 r" t' "substring 2 8 r'"]
  by (auto simp: uniqueUserId_def dest: dec_inj)

lemma hex_digit_lower: "n < 16 \<Longrightarrow> hex_digit n \<in> set ''0123456789abcdef''"
proof -
  assume "n < 16"
  have "list_all (\<lambda>n. hex_digit n \<in> set ''0123456789abcdef'') [0..<16]" by code_simp
  then have "\<forall>n\<in>set [0..<16]. hex_digit n \<in> set ''0123456789abcdef''"
    by (simp only: list_all_iff)
  with \<open>n < 16\<close> show ?thesis by simp
qed

lemma hex_lower: "is_lower_hex (hex bs)"
proof -
  have "unat b div 16 < 16" for b :: "8 word"
    using unsigned_less [of b, where 'a = nat] by simp
  then show ?thesis
    by (induction bs) (simp_all add: hex_def is_lower_hex_def hex_byte_def hex_digit_lower del: set_simps)
qed

lemma length_hex: "length (hex bs) = 2 * length bs"
  by (induction bs) (simp_all add: hex_def hex_byte_def)


lemma of_char_hex_digit: "n < 16 \<Longrightarrow> of_char (hex_digit n) = (if n < 10 then 48 + n else 87 + n :: nat)"
  by (simp add: hex_digit_def)

lemma hex_digit_inj: "a < 16 \<Longrightarrow> b < 16 \<Longrightarrow> hex_digit a = hex_digit b \<Longrightarrow> a = b"
proof -
  assume a: "a < 16" and b: "b < 16" and e: "hex_digit a = hex_digit b"
  from e have "(of_char (hex_digit a) :: nat) = of_char (hex_digit b)" by (rule arg_cong)
  then have "(if a < 10 then 48 + a else 87 + a) = (if b < 10 then 48 + b else 87 + b)"
    by (simp only: of_char_hex_digit [OF a] of_char_hex_digit [OF b])
  with a b show "a = b" by (simp split: if_splits)
qed

lemma hex_byte_inj: "hex_byte a = hex_byte b \<Longrightarrow> a = b"
proof -
  assume e: "hex_byte a = hex_byte b"
  have la: "unat a < 256" and lb: "unat b < 256"
    using unsigned_less [of a, where 'a = nat] unsigned_less [of b, where 'a = nat] by simp_all
  then have "unat a div 16 < 16" "unat b div 16 < 16" by simp_all
  moreover have "unat a mod 16 < 16" "unat b mod 16 < 16" by simp_all
  moreover from e have "hex_digit (unat a div 16) = hex_digit (unat b div 16)"
    "hex_digit (unat a mod 16) = hex_digit (unat b mod 16)" by (simp_all add: hex_byte_def)
  ultimately have "unat a div 16 = unat b div 16" "unat a mod 16 = unat b mod 16"
    by (simp_all add: hex_digit_inj)
  then have "unat a = unat b" by (metis div_mult_mod_eq)
  then show "a = b" by (simp add: word_unat_eq_iff)
qed

lemma hex_inj: "hex xs = hex ys \<Longrightarrow> xs = ys"
proof (induction xs arbitrary: ys)
  case Nil
  then show ?case by (cases ys) (simp_all add: hex_def hex_byte_def)
next
  case (Cons x xs)
  show ?case
  proof (cases ys)
    case Nil
    with Cons.prems show ?thesis by (simp add: hex_def hex_byte_def)
  next
    case (Cons y ys')
    with Cons.prems have "hex_byte x @ hex xs = hex_byte y @ hex ys'" by (simp add: hex_def)
    moreover have "length (hex_byte x) = length (hex_byte y)" by (simp add: hex_byte_def)
    ultimately have "hex_byte x = hex_byte y" "hex xs = hex ys'" by simp_all
    with Cons.IH Cons show ?thesis by (simp add: hex_byte_inj)
  qed
qed

lemma digit_simps:
  "digit 0 = CHR ''0''" "digit 1 = CHR ''1''" "digit 2 = CHR ''2''" "digit 3 = CHR ''3''"
  "digit 4 = CHR ''4''" "digit 5 = CHR ''5''" "digit 6 = CHR ''6''" "digit 7 = CHR ''7''"
  "digit 8 = CHR ''8''" "digit 9 = CHR ''9''" "digit (Suc 0) = CHR ''1''"
  by code_simp+

section \<open>What one run of each function does, with both credentials configured\<close>

text \<open>
  With both credentials present, \<open>makeAuthenticatedRequest\<close> reads the clock once,
  issues exactly one request, the signed request of the remote contract, and returns what
  the reply yields. The three handlers follow: which requests each one issues, in which
  order, and which response it gives for each outcome of the remote calls.
\<close>

lemma makeAuthenticatedRequest_configured:
  assumes "configured e secret tok"
  shows "makeAuthenticatedRequest P e method path body w =
     (read_response (upstream w (sent w)
        (signed_request P secret tok method path
           (if truthy body then Some (JSON_stringify P body) else None) (dates w (date_reads w)))),
      w\<lparr>date_reads := Suc (date_reads w),
        sent := sent w @ [signed_request P secret tok method path
           (if truthy body then Some (JSON_stringify P body) else None) (dates w (date_reads w))]\<rparr>)"
  using assms
  by (simp add: makeAuthenticatedRequest_def configured_def Date_now_def fetch_def
      createSignature_def signing_message_def signed_request_def SUMSUB_API_URL_def Let_def)

lemma access_token_run:
  fixes P :: platform and e :: env and req :: token_request and w :: world
    and secret tok user :: string
  assumes cfg: "configured e secret tok" and u: "userId req = Some user" "user \<noteq> []"
  defines "uid \<equiv> uniqueUserId user (dates w (date_reads w)) (randoms w (random_reads w))"
    and "level \<equiv> selectedLevel e (levelName req)"
  defines "creq \<equiv> create_subject_request P secret tok level uid (dates w (Suc (date_reads w)))"
    and "mreq \<equiv> mint_token_request P secret tok
           (JObj [(''userId'', JStr uid), (''levelName'', JStr level), (''ttlInSecs'', JNum 1200)])
           (dates w (Suc (Suc (date_reads w))))"
  defines "r1 \<equiv> read_response (upstream w (sent w) creq)"
    and "r2 \<equiv> read_response (upstream w (sent w @ [creq]) mreq)"
  shows "fst (access_token P e req w) =
      (case r1 of
         Inl x \<Rightarrow> failure ''Failed to generate access token'' x
       | Inr ar \<Rightarrow>
          (case get_prop ar ''id'' of
             Inl x \<Rightarrow> failure ''Failed to generate access token'' x
           | Inr aid \<Rightarrow>
              (case r2 of
                 Inl x \<Rightarrow> failure ''Failed to generate access token'' x
               | Inr tr \<Rightarrow>
                  (case get_prop tr ''token'' of
                     Inl x \<Rightarrow> failure ''Failed to generate access token'' x
                   | Inr t \<Rightarrow> (200, object [(''token'', t), (''applicantId'', aid),
                                              (''userId'', Some (JStr uid))])))))"
    and "sent (snd (access_token P e req w)) =
      sent w @ (case r1 of
                  Inl x \<Rightarrow> [creq]
                | Inr ar \<Rightarrow> (case get_prop ar ''id'' of Inl x \<Rightarrow> [creq] | Inr aid \<Rightarrow> [creq, mreq]))"
  unfolding uid_def level_def creq_def mreq_def r1_def r2_def
  using u
  by (simp_all add: access_token_def makeAuthenticatedRequest_configured [OF cfg]
      Date_now_def Math_random_toString36_def create_subject_request_def mint_token_request_def
      Let_def split: sum.split)

lemma refresh_token_run:
  fixes P :: platform and e :: env and req :: token_request and w :: world
    and secret tok user :: string
  assumes cfg: "configured e secret tok" and u: "userId req = Some user" "user \<noteq> []"
  defines "mreq \<equiv> mint_token_request P secret tok
           (JObj [(''userId'', JStr user), (''levelName'', JStr (LEVEL_NAME e)),
                  (''ttlInSecs'', JNum 1200), (''applicantIdentifiers'', JObj [])])
           (dates w (date_reads w))"
  defines "r \<equiv> read_response (upstream w (sent w) mreq)"
  shows "fst (refresh_token P e req w) =
      (case r of
         Inl x \<Rightarrow> failure ''Failed to refresh access token'' x
       | Inr tr \<Rightarrow>
          (case get_prop tr ''token'' of
             Inl x \<Rightarrow> failure ''Failed to refresh access token'' x
           | Inr t \<Rightarrow> (200, object [(''token'', t), (''userId'', Some (JStr user))])))"
    and "sent (snd (refresh_token P e req w)) = sent w @ [mreq]"
  unfolding mreq_def r_def
  using u
  by (simp_all add: refresh_token_def makeAuthenticatedRequest_configured [OF cfg]
      mint_token_request_def split: sum.split)


lemma LEVEL_NAME_not_empty: "LEVEL_NAME e \<noteq> []"
  by (cases "e ''SUMSUB_LEVEL_NAME''") (simp_all add: LEVEL_NAME_def)

section \<open>The stubs, evaluated\<close>

lemma stub_configured: "configured stub_env ''key'' ''app''"
  by (simp add: configured_def stub_env_def SECRET_KEY_def APP_TOKEN_def)

lemma stub_level: "selectedLevel stub_env None = ''basic-kyc-level''"
  by (simp add: selectedLevel_def LEVEL_NAME_def stub_env_def)

lemma stub_uid: "uniqueUserId ''u1'' 1700000000123 ''0.4fzyo82mvyr'' = ''u1_1700000000123_4fzyo8''"
  by (simp add: uniqueUserId_def substring_def dec.simps digit_simps)

lemma read_failing:
  "read_response (failing_upstream h r)
     = Inl (JsError (''Sumsub API error: 503 '' @ stub_stringify (JStr ''down'')))"
proof -
  have "dec 503 = ''503''" by (simp add: dec.simps digit_simps)
  then show ?thesis by (simp add: read_response_def failing_upstream_def reply_def ok_def)
qed

lemma read_stub_token:
  "url r = ''https://api.sumsub.com/resources/accessTokens/sdk'' \<Longrightarrow>
   read_response (stub_upstream h r) = Inr (JObj [(''token'', JStr ''tok_xyz'')])"
  by (simp add: read_response_def stub_upstream_def reply_def ok_def)

lemma read_stub_subject:
  "url r \<noteq> ''https://api.sumsub.com/resources/accessTokens/sdk'' \<Longrightarrow>
   read_response (stub_upstream h r) = Inr (JObj [(''id'', JStr ''sub_1'')])"
  by (simp add: read_response_def stub_upstream_def reply_def ok_def)

lemma url_create [simp]:
  "url (create_subject_request P secret tok level uid t)
     = ''https://api.sumsub.com/resources/applicants?levelName='' @ level"
  by (simp add: create_subject_request_def signed_request_def)

lemma url_mint [simp]:
  "url (mint_token_request P secret tok payload t) = ''https://api.sumsub.com/resources/accessTokens/sdk''"
  by (simp add: mint_token_request_def signed_request_def)

section \<open>The signer\<close>

text \<open>
  C1. With a secret configured (present and not empty), \<open>createSignature\<close> returns,
  for every timestamp, method, path and body, the hexadecimal rendering of the
  HMAC-SHA256 digest, under that secret, of the concatenation of the timestamp, the
  upper-cased method, the path and the body; the rendering consists of lowercase
  hexadecimal digits, two for each byte of the digest.
\<close>

theorem createSignature_hex_hmac:
  assumes "SECRET_KEY e = Some secret" and "secret \<noteq> []"
  shows "createSignature P e timestamp method path body
           = Inr (hex (hmac_sha256 P secret (timestamp @ toUpperCase method @ path @ body)))
         \<and> is_lower_hex (hex (hmac_sha256 P secret (timestamp @ toUpperCase method @ path @ body)))
         \<and> length (hex (hmac_sha256 P secret (timestamp @ toUpperCase method @ path @ body)))
           = 2 * length (hmac_sha256 P secret (timestamp @ toUpperCase method @ path @ body))"
  using assms by (simp add: createSignature_def signing_message_def hex_lower length_hex)

theorem createSignature_hex_hmac_witness:
  "SECRET_KEY stub_env = Some ''key'' \<and> ''key'' \<noteq> []
   \<and> createSignature stub_platform stub_env ''1700000000'' ''post'' ''/resources/accessTokens/sdk'' ''{}''
       = Inr (hex (stub_hmac ''key'' ''1700000000POST/resources/accessTokens/sdk{}''))
   \<and> is_lower_hex (hex (stub_hmac ''key'' ''1700000000POST/resources/accessTokens/sdk{}''))
   \<and> length (hex (stub_hmac ''key'' ''1700000000POST/resources/accessTokens/sdk{}'')) = 92"
proof -
  have k: "SECRET_KEY stub_env = Some ''key''"
    by (simp add: SECRET_KEY_def stub_env_def)
  have n: "''key'' \<noteq> []" by simp
  have u: "toUpperCase ''post'' = ''POST''"
    by code_simp
  from createSignature_hex_hmac [OF k n, of stub_platform "''1700000000''" "''post''"
      "''/resources/accessTokens/sdk''" "''{}''"]
  show ?thesis
    using k by (simp add: stub_platform_def u stub_hmac_def)
qed

section \<open>Input validation\<close>



section \<open>The signature covers what is sent\<close>

text \<open>
  C10. Whatever the configuration, method, path and body, \<open>makeAuthenticatedRequest\<close>
  issues no request or exactly one; the request it issues goes to the base URL followed
  by the path, transmits the JSON serialisation of the body (or no body when the body is
  falsy), and carries as its signature what the signer returns for the request's
  timestamp, the method, the path and precisely the transmitted body string (the empty
  string when no body is transmitted).
\<close>

theorem signature_covers_sent_body:
  "sent (snd (makeAuthenticatedRequest P e method path body w)) = sent w
   \<or> (\<exists>r. sent (snd (makeAuthenticatedRequest P e method path body w)) = sent w @ [r]
          \<and> url r = SUMSUB_API_URL @ path
          \<and> http_method r = method
          \<and> sent_body r = (if truthy body then Some (JSON_stringify P body) else None)
          \<and> createSignature P e (x_app_access_ts r) method path
               (case sent_body r of None \<Rightarrow> [] | Some s \<Rightarrow> s) = Inr (x_app_access_sig r))"
proof (cases "\<exists>secret tok. configured e secret tok")
  case True
  then obtain secret tok where cfg: "configured e secret tok" by blast
  then have "createSignature P e ts method path b
      = Inr (hex (hmac_sha256 P secret (ts @ toUpperCase method @ path @ b)))" for ts b
    by (simp add: configured_def createSignature_def signing_message_def)
  then show ?thesis
    by (simp add: makeAuthenticatedRequest_configured [OF cfg] signed_request_def SUMSUB_API_URL_def)
next
  case False
  then have "sent (snd (makeAuthenticatedRequest P e method path body w)) = sent w"
    by (auto simp: makeAuthenticatedRequest_def configured_def createSignature_def Date_now_def
        Let_def split: option.splits)
  then show ?thesis by simp
qed

theorem signature_covers_sent_body_witness:
  "\<exists>r. sent (snd (makeAuthenticatedRequest stub_platform stub_env ''POST'' ''/resources/accessTokens/sdk''
             (JObj [(''ttlInSecs'', JNum 1200)]) (stub_world stub_upstream))) = [r]
        \<and> sent_body r = Some (stub_stringify (JObj [(''ttlInSecs'', JNum 1200)]))
        \<and> createSignature stub_platform stub_env (x_app_access_ts r) ''POST'' ''/resources/accessTokens/sdk''
             (stub_stringify (JObj [(''ttlInSecs'', JNum 1200)])) = Inr (x_app_access_sig r)"
proof -
  have "sent (snd (makeAuthenticatedRequest stub_platform stub_env ''POST'' ''/resources/accessTokens/sdk''
      (JObj [(''ttlInSecs'', JNum 1200)]) (stub_world stub_upstream))) \<noteq> sent (stub_world stub_upstream)"
    by (simp add: makeAuthenticatedRequest_configured [OF stub_configured])
  with signature_covers_sent_body [of stub_platform stub_env "''POST''" "''/resources/accessTokens/sdk''"
      "JObj [(''ttlInSecs'', JNum 1200)]" "stub_world stub_upstream"]
  show ?thesis
    by (auto simp: stub_world_def stub_platform_def)
qed

section \<open>The access-token flow\<close>

text \<open>
  C2. With both credentials configured and a non-empty \<open>userId\<close>: if the
  subject-creation call fails (the fetch rejects, the status is not a success, or the
  body does not parse), the handler answers with the failure response carrying that
  error and the only request issued is the subject-creation request: the token-minting
  call is not attempted and nothing is retried. In every run the requests issued are the
  subject-creation request alone or followed by the token-minting request; the
  token-minting request is issued only after the subject-creation call has returned a
  response whose \<open>id\<close> was read; status 200 is given only when both calls succeeded, and
  the status is 200 or 500.
\<close>

theorem access_token_no_partial_success:
  fixes P :: platform and e :: env and req :: token_request and w :: world
    and secret tok user :: string
  assumes cfg: "configured e secret tok" and u: "userId req = Some user" "user \<noteq> []"
  defines "uid \<equiv> uniqueUserId user (dates w (date_reads w)) (randoms w (random_reads w))"
    and "level \<equiv> selectedLevel e (levelName req)"
  defines "creq \<equiv> create_subject_request P secret tok level uid (dates w (Suc (date_reads w)))"
    and "mreq \<equiv> mint_token_request P secret tok
           (JObj [(''userId'', JStr uid), (''levelName'', JStr level), (''ttlInSecs'', JNum 1200)])
           (dates w (Suc (Suc (date_reads w))))"
  shows "(\<forall>x. read_response (upstream w (sent w) creq) = Inl x \<longrightarrow>
            fst (access_token P e req w) = failure ''Failed to generate access token'' x
            \<and> sent (snd (access_token P e req w)) = sent w @ [creq])
       \<and> (sent (snd (access_token P e req w)) = sent w @ [creq]
            \<or> sent (snd (access_token P e req w)) = sent w @ [creq, mreq])
       \<and> (sent (snd (access_token P e req w)) = sent w @ [creq, mreq] \<longrightarrow>
            (\<exists>ar sid. read_response (upstream w (sent w) creq) = Inr ar \<and> get_prop ar ''id'' = Inr sid))
       \<and> (fst (fst (access_token P e req w)) = 200 \<longrightarrow>
            (\<exists>ar tr. read_response (upstream w (sent w) creq) = Inr ar
               \<and> read_response (upstream w (sent w @ [creq]) mreq) = Inr tr))
       \<and> (fst (fst (access_token P e req w)) = 200 \<or> fst (fst (access_token P e req w)) = 500)"
  unfolding uid_def level_def creq_def mreq_def
  by (auto simp: access_token_run [OF cfg u] failure_def split: sum.splits)

theorem access_token_no_partial_success_witness:
  "read_response (upstream (stub_world failing_upstream) []
       (create_subject_request stub_platform ''key'' ''app'' ''basic-kyc-level''
          ''u1_1700000000123_4fzyo8'' 1700000000123))
     = Inl (JsError (''Sumsub API error: 503 '' @ stub_stringify (JStr ''down'')))
   \<and> fst (access_token stub_platform stub_env \<lparr>userId = Some ''u1'', levelName = None\<rparr>
          (stub_world failing_upstream))
     = failure ''Failed to generate access token''
         (JsError (''Sumsub API error: 503 '' @ stub_stringify (JStr ''down'')))
   \<and> sent (snd (access_token stub_platform stub_env \<lparr>userId = Some ''u1'', levelName = None\<rparr>
          (stub_world failing_upstream)))
     = [create_subject_request stub_platform ''key'' ''app'' ''basic-kyc-level''
          ''u1_1700000000123_4fzyo8'' 1700000000123]"
  using access_token_no_partial_success [OF stub_configured,
      where req = "\<lparr>userId = Some ''u1'', levelName = None\<rparr>" and user = "''u1''"
        and P = stub_platform and w = "stub_world failing_upstream"]
  by (simp add: stub_world_def stub_uid stub_level read_failing)

text \<open>
  C5. With both credentials configured and a non-empty \<open>userId\<close>: when the
  subject-creation call returns a response with an \<open>id\<close> and the token-minting call
  returns a response with a \<open>token\<close>, the handler answers 200 with exactly the three
  fields \<open>token\<close> (the token of the minting response), \<open>applicantId\<close> (the id of the
  creation response) and \<open>userId\<close> (the derived identifier). The requests issued are the
  creation request and then the minting request; the minting request is a POST to
  \<open>/resources/accessTokens/sdk\<close> whose body is the serialisation of the same derived
  identifier, the same level as in the creation request and \<open>ttlInSecs\<close> 1200.
\<close>

theorem access_token_success:
  fixes P :: platform and e :: env and req :: token_request and w :: world
    and secret tok user :: string
  assumes cfg: "configured e secret tok" and u: "userId req = Some user" "user \<noteq> []"
  defines "uid \<equiv> uniqueUserId user (dates w (date_reads w)) (randoms w (random_reads w))"
    and "level \<equiv> selectedLevel e (levelName req)"
  defines "creq \<equiv> create_subject_request P secret tok level uid (dates w (Suc (date_reads w)))"
    and "mreq \<equiv> mint_token_request P secret tok
           (JObj [(''userId'', JStr uid), (''levelName'', JStr level), (''ttlInSecs'', JNum 1200)])
           (dates w (Suc (Suc (date_reads w))))"
  assumes created: "read_response (upstream w (sent w) creq) = Inr ar" "get_prop ar ''id'' = Inr (Some sid)"
    and minted: "read_response (upstream w (sent w @ [creq]) mreq) = Inr tr"
      "get_prop tr ''token'' = Inr (Some t)"
  shows "fst (access_token P e req w)
           = (200, JObj [(''token'', t), (''applicantId'', sid), (''userId'', JStr uid)])
       \<and> sent (snd (access_token P e req w)) = sent w @ [creq, mreq]
       \<and> url mreq = ''https://api.sumsub.com/resources/accessTokens/sdk''
       \<and> http_method mreq = ''POST''
       \<and> sent_body mreq = Some (JSON_stringify P
            (JObj [(''userId'', JStr uid), (''levelName'', JStr level), (''ttlInSecs'', JNum 1200)]))
       \<and> url creq = ''https://api.sumsub.com/resources/applicants?levelName='' @ level
       \<and> sent_body creq = Some (JSON_stringify P (JObj [(''externalUserId'', JStr uid)]))"
  using created minted
  unfolding uid_def level_def creq_def mreq_def
  by (simp add: access_token_run [OF cfg u] object_def List.map_filter_simps
      mint_token_request_def create_subject_request_def signed_request_def)

theorem access_token_success_witness:
  "fst (access_token stub_platform stub_env \<lparr>userId = Some ''u1'', levelName = None\<rparr>
          (stub_world stub_upstream))
     = (200, JObj [(''token'', JStr ''tok_xyz''), (''applicantId'', JStr ''sub_1''),
                   (''userId'', JStr ''u1_1700000000123_4fzyo8'')])
   \<and> sent (snd (access_token stub_platform stub_env \<lparr>userId = Some ''u1'', levelName = None\<rparr>
          (stub_world stub_upstream)))
     = [create_subject_request stub_platform ''key'' ''app'' ''basic-kyc-level''
          ''u1_1700000000123_4fzyo8'' 1700000000123,
        mint_token_request stub_platform ''key'' ''app''
          (JObj [(''userId'', JStr ''u1_1700000000123_4fzyo8''),
                 (''levelName'', JStr ''basic-kyc-level''), (''ttlInSecs'', JNum 1200)])
          1700000000123]"
  using access_token_success [OF stub_configured,
      where req = "\<lparr>userId = Some ''u1'', levelName = None\<rparr>" and user = "''u1''"
        and P = stub_platform and w = "stub_world stub_upstream"
        and ar = "JObj [(''id'', JStr ''sub_1'')]" and sid = "JStr ''sub_1''"
        and tr = "JObj [(''token'', JStr ''tok_xyz'')]" and t = "JStr ''tok_xyz''"]
  by (simp add: stub_world_def stub_uid stub_level read_stub_subject read_stub_token)

section \<open>The refresh-token flow\<close>

text \<open>
  C6. With both credentials configured and a non-empty \<open>userId\<close>, the refresh-token
  handler issues exactly one request, a POST to \<open>/resources/accessTokens/sdk\<close> whose
  body is the serialisation of the \<open>userId\<close> as given, the configured default level,
  \<open>ttlInSecs\<close> 1200 and an empty \<open>applicantIdentifiers\<close> object; a \<open>levelName\<close> in the
  request changes nothing; when the call returns a response with a \<open>token\<close>, the handler
  answers 200 with exactly that token and the \<open>userId\<close> as given.
\<close>

theorem refresh_token_payload:
  fixes P :: platform and e :: env and req :: token_request and w :: world
    and secret tok user :: string
  assumes cfg: "configured e secret tok" and u: "userId req = Some user" "user \<noteq> []"
  defines "mreq \<equiv> mint_token_request P secret tok
           (JObj [(''userId'', JStr user), (''levelName'', JStr (LEVEL_NAME e)),
                  (''ttlInSecs'', JNum 1200), (''applicantIdentifiers'', JObj [])])
           (dates w (date_reads w))"
  shows "sent (snd (refresh_token P e req w)) = sent w @ [mreq]
       \<and> url mreq = ''https://api.sumsub.com/resources/accessTokens/sdk''
       \<and> http_method mreq = ''POST''
       \<and> sent_body mreq = Some (JSON_stringify P
            (JObj [(''userId'', JStr user), (''levelName'', JStr (LEVEL_NAME e)),
                   (''ttlInSecs'', JNum 1200), (''applicantIdentifiers'', JObj [])]))
       \<and> refresh_token P e (req\<lparr>levelName := l\<rparr>) w = refresh_token P e req w
       \<and> (\<forall>tr t. read_response (upstream w (sent w) mreq) = Inr tr \<and> get_prop tr ''token'' = Inr (Some t)
            \<longrightarrow> fst (refresh_token P e req w) = (200, JObj [(''token'', t), (''userId'', JStr user)]))"
proof -
  have "refresh_token P e (req\<lparr>levelName := l\<rparr>) w = refresh_token P e req w"
    by (simp add: refresh_token_def)
  then show ?thesis
    unfolding mreq_def
    by (simp add: refresh_token_run [OF cfg u] object_def List.map_filter_simps
        mint_token_request_def signed_request_def)
qed

theorem refresh_token_payload_witness:
  "sent (snd (refresh_token stub_platform stub_env \<lparr>userId = Some ''u1'', levelName = Some ''id-only''\<rparr>
          (stub_world stub_upstream)))
     = [mint_token_request stub_platform ''key'' ''app''
          (JObj [(''userId'', JStr ''u1''), (''levelName'', JStr ''basic-kyc-level''),
                 (''ttlInSecs'', JNum 1200), (''applicantIdentifiers'', JObj [])])
          1700000000123]
   \<and> fst (refresh_token stub_platform stub_env \<lparr>userId = Some ''u1'', levelName = Some ''id-only''\<rparr>
          (stub_world stub_upstream))
     = (200, JObj [(''token'', JStr ''tok_xyz''), (''userId'', JStr ''u1'')])"
proof -
  have l: "LEVEL_NAME stub_env = ''basic-kyc-level''"
    by (simp add: LEVEL_NAME_def stub_env_def)
  from refresh_token_payload [OF stub_configured,
      where req = "\<lparr>userId = Some ''u1'', levelName = Some ''id-only''\<rparr>" and user = "''u1''"
        and P = stub_platform and w = "stub_world stub_upstream"]
  show ?thesis
    by (simp add: stub_world_def l read_stub_token)
qed

section \<open>The status lookup\<close>



section \<open>The selected verification level\<close>

text \<open>
  C9. In the access-token handler the selected level is the request's \<open>levelName\<close> when
  that is present and not empty, and the configured default (which is never empty)
  when it is absent or the empty string. With both credentials configured and a
  non-empty \<open>userId\<close>, this selected level is the one in the URL of the
  subject-creation request and in the body of the token-minting request, and a request
  with an empty \<open>levelName\<close> is handled exactly as one without.
\<close>

theorem empty_levelName_falls_back:
  fixes P :: platform and e :: env and req :: token_request and w :: world
    and secret tok user :: string
  assumes cfg: "configured e secret tok" and u: "userId req = Some user" "user \<noteq> []"
  defines "level \<equiv> (case levelName req of
                       None \<Rightarrow> LEVEL_NAME e
                     | Some l \<Rightarrow> if l = [] then LEVEL_NAME e else l)"
    and "uid \<equiv> uniqueUserId user (dates w (date_reads w)) (randoms w (random_reads w))"
  defines "creq \<equiv> create_subject_request P secret tok level uid (dates w (Suc (date_reads w)))"
    and "mreq \<equiv> mint_token_request P secret tok
           (JObj [(''userId'', JStr uid), (''levelName'', JStr level), (''ttlInSecs'', JNum 1200)])
           (dates w (Suc (Suc (date_reads w))))"
  shows "selectedLevel e (levelName req) = level
       \<and> level \<noteq> []
       \<and> (sent (snd (access_token P e req w)) = sent w @ [creq]
            \<or> sent (snd (access_token P e req w)) = sent w @ [creq, mreq])
       \<and> url creq = ''https://api.sumsub.com/resources/applicants?levelName='' @ level
       \<and> sent_body mreq = Some (JSON_stringify P
            (JObj [(''userId'', JStr uid), (''levelName'', JStr level), (''ttlInSecs'', JNum 1200)]))
       \<and> access_token P e (req\<lparr>levelName := Some []\<rparr>) w = access_token P e (req\<lparr>levelName := None\<rparr>) w"
proof -
  have l: "selectedLevel e (levelName req) = level"
    by (cases "levelName req") (simp_all add: selectedLevel_def level_def)
  have n: "level \<noteq> []"
    by (cases "levelName req") (simp_all add: level_def LEVEL_NAME_not_empty)
  have s: "access_token P e (req\<lparr>levelName := Some []\<rparr>) w = access_token P e (req\<lparr>levelName := None\<rparr>) w"
    by (cases "userId req") (simp_all add: access_token_def selectedLevel_def)
  have "sent (snd (access_token P e req w)) = sent w @ [creq]
      \<or> sent (snd (access_token P e req w)) = sent w @ [creq, mreq]"
    unfolding creq_def mreq_def uid_def l [symmetric]
    by (simp add: access_token_run [OF cfg u] split: sum.split)
  with l n s show ?thesis
    by (simp add: creq_def mreq_def mint_token_request_def signed_request_def)
qed

theorem empty_levelName_falls_back_witness:
  "selectedLevel stub_env (Some []) = ''basic-kyc-level''
   \<and> selectedLevel stub_env (Some ''id-only'') = ''id-only''
   \<and> sent (snd (access_token stub_platform stub_env \<lparr>userId = Some ''u1'', levelName = Some []\<rparr>
          (stub_world failing_upstream)))
     = [create_subject_request stub_platform ''key'' ''app'' ''basic-kyc-level''
          ''u1_1700000000123_4fzyo8'' 1700000000123]
   \<and> sent (snd (access_token stub_platform stub_env \<lparr>userId = Some ''u1'', levelName = Some ''id-only''\<rparr>
          (stub_world failing_upstream)))
     = [create_subject_request stub_platform ''key'' ''app'' ''id-only''
          ''u1_1700000000123_4fzyo8'' 1700000000123]"
proof -
  have l: "LEVEL_NAME stub_env = ''basic-kyc-level''"
    by (simp add: LEVEL_NAME_def stub_env_def)
  have f: "sent (snd (access_token stub_platform stub_env \<lparr>userId = Some ''u1'', levelName = lv\<rparr>
          (stub_world failing_upstream))) \<noteq> [c, m]" for lv c m
    by (simp add: access_token_run [OF stub_configured] read_failing stub_world_def)
  note a = empty_levelName_falls_back [OF stub_configured,
      where req = "\<lparr>userId = Some ''u1'', levelName = Some []\<rparr>" and user = "''u1''"
        and P = stub_platform and w = "stub_world failing_upstream"]
  note b = empty_levelName_falls_back [OF stub_configured,
      where req = "\<lparr>userId = Some ''u1'', levelName = Some ''id-only''\<rparr>" and user = "''u1''"
        and P = stub_platform and w = "stub_world failing_upstream"]
  from a [THEN conjunct1] a [THEN conjunct2, THEN conjunct2, THEN conjunct1]
    b [THEN conjunct1] b [THEN conjunct2, THEN conjunct2, THEN conjunct1]
  show ?thesis
    using f by (simp add: stub_world_def stub_uid l)
qed

end
